theory Spec2Isabelle
  imports Complex_Main
begin

section \<open>Python strings\<close>

text \<open>
  A Python \<open>str\<close> is a sequence of Unicode code points, and \<open>len\<close> counts code points.
  The patterns of both filters hold Japanese text, so a string is modelled as the list of its
  code points.  \<open>ustr\<close> embeds an ASCII literal.
\<close>

type_synonym pystr = "nat list"

definition ustr :: "string \<Rightarrow> pystr" where
  "ustr s = map of_char s"

text \<open>
  \<open>str.isspace\<close> on one code point.  \<open>str.strip()\<close>, \<open>str.split()\<close> and the class \<open>\s\<close> of
  \<open>re\<close> on a \<open>str\<close> pattern all use this one predicate.
\<close>

definition py_isspace :: "nat \<Rightarrow> bool" where
  "py_isspace c \<longleftrightarrow>
     (9 \<le> c \<and> c \<le> 13) \<or> (28 \<le> c \<and> c \<le> 32) \<or> c = 133 \<or> c = 160 \<or> c = 5760 \<or>
     (8192 \<le> c \<and> c \<le> 8202) \<or> c = 8232 \<or> c = 8233 \<or> c = 8239 \<or> c = 8287 \<or> c = 12288"

text \<open>\<open>s.strip()\<close>: whitespace removed at both ends.\<close>

definition py_strip :: "pystr \<Rightarrow> pystr" where
  "py_strip s = rev (dropWhile py_isspace (rev (dropWhile py_isspace s)))"

text \<open>
  \<open>s.split()\<close>: the maximal runs of non-whitespace, in order.  The first argument is the
  token being read.
\<close>

fun split_from :: "pystr \<Rightarrow> pystr \<Rightarrow> pystr list" where
  "split_from cur [] = (if cur = [] then [] else [cur])"
| "split_from cur (c # cs) =
     (if py_isspace c then (if cur = [] then split_from [] cs else cur # split_from [] cs)
      else split_from (cur @ [c]) cs)"

definition py_split :: "pystr \<Rightarrow> pystr list" where
  "py_split s = split_from [] s"

text \<open>
  \<open>s.count(sub)\<close>: the number of non-overlapping occurrences of \<open>sub\<close> in \<open>s\<close>, found from
  left to right.  \<open>count_from sub k s\<close> skips the next \<open>k\<close> code points, which belong to
  the occurrence just counted.  For the empty \<open>sub\<close> Python returns \<open>len(s) + 1\<close>.
\<close>

fun count_from :: "pystr \<Rightarrow> nat \<Rightarrow> pystr \<Rightarrow> nat" where
  "count_from sub k [] = 0"
| "count_from sub k (c # cs) =
     (if 0 < k then count_from sub (k - 1) cs
      else if take (length sub) (c # cs) = sub then Suc (count_from sub (length sub - 1) cs)
      else count_from sub 0 cs)"

definition py_count :: "pystr \<Rightarrow> pystr \<Rightarrow> nat" where
  "py_count s sub = (if sub = [] then length s + 1 else count_from sub 0 s)"

text \<open>\<open>sep.join(parts)\<close>.\<close>

fun py_join :: "pystr \<Rightarrow> pystr list \<Rightarrow> pystr" where
  "py_join sep [] = []"
| "py_join sep [x] = x"
| "py_join sep (x # y # ys) = x @ sep @ py_join sep (y # ys)"

section \<open>Regular expressions\<close>

text \<open>
  The constructs of \<open>re\<close> that the pattern tables of the two filters use.  A pattern is
  data, as in the source, and one matcher runs every pattern.
\<close>

datatype regex =
    Eps
  | Lit nat
  | In "nat list"
  | Space
  | Any
  | Bol
  | Eol
  | Seq regex regex
  | Alt regex regex
  | Star regex
  | Plus regex

text \<open>
  \<open>re.IGNORECASE\<close> on a \<open>str\<close> pattern: a cased literal matches a code point whose lowercase
  is the literal's lowercase or one of its listed equivalents (the table \<open>_equivalences\<close> of
  the \<open>re\<close> compiler); an uncased literal is compared as it is.  The only cased literals of
  the patterns below are ASCII letters, so lowercase is written out for the code points whose
  lowercase is an ASCII letter: A to Z, U+0130 (to i) and U+212A (to k).
\<close>

definition iscased :: "nat \<Rightarrow> bool" where
  "iscased c \<longleftrightarrow> (65 \<le> c \<and> c \<le> 90) \<or> (97 \<le> c \<and> c \<le> 122)"

definition tolower :: "nat \<Rightarrow> nat" where
  "tolower c = (if 65 \<le> c \<and> c \<le> 90 then c + 32 else if c = 304 then 105
                else if c = 8490 then 107 else c)"

definition ignorecase_fixes :: "nat \<Rightarrow> nat list" where
  "ignorecase_fixes lo = (if lo = 105 then [305] else if lo = 115 then [383] else [])"

definition lit_matches :: "bool \<Rightarrow> nat \<Rightarrow> nat \<Rightarrow> bool" where
  "lit_matches ic c ch =
     (if ic \<and> iscased c then tolower ch \<in> set (tolower c # ignorecase_fixes (tolower c))
      else ch = c)"

text \<open>
  A matcher state is the rest of the subject and whether the position is its start.
  \<open>ends r ic st\<close> lists the states in which a match of \<open>r\<close> that starts in \<open>st\<close> can end.
  \<open>^\<close> matches at the start of the subject, \<open>$\<close> at its end and before a newline that ends
  it, \<open>.\<close> any code point but the newline (no \<open>MULTILINE\<close>, no \<open>DOTALL\<close>).
\<close>

type_synonym mstate = "bool \<times> pystr"

text \<open>
  Repetition: zero or more rounds of \<open>f\<close>.  A round that consumes nothing reaches no new
  state, so only rounds that consume are followed, and \<open>n\<close> rounds suffice for a rest of
  length \<open>n\<close>.
\<close>

fun star_ends :: "(mstate \<Rightarrow> mstate list) \<Rightarrow> nat \<Rightarrow> mstate \<Rightarrow> mstate list" where
  "star_ends f 0 st = [st]"
| "star_ends f (Suc n) st =
     st # concat (map (star_ends f n) (filter (\<lambda>st'. length (snd st') < length (snd st)) (f st)))"

primrec ends :: "regex \<Rightarrow> bool \<Rightarrow> mstate \<Rightarrow> mstate list" where
  "ends Eps ic st = [st]"
| "ends (Lit c) ic st =
     (case snd st of [] \<Rightarrow> [] | ch # rest \<Rightarrow> if lit_matches ic c ch then [(False, rest)] else [])"
| "ends (In cs) ic st =
     (case snd st of [] \<Rightarrow> []
      | ch # rest \<Rightarrow> if list_ex (\<lambda>c. lit_matches ic c ch) cs then [(False, rest)] else [])"
| "ends Space ic st =
     (case snd st of [] \<Rightarrow> [] | ch # rest \<Rightarrow> if py_isspace ch then [(False, rest)] else [])"
| "ends Any ic st =
     (case snd st of [] \<Rightarrow> [] | ch # rest \<Rightarrow> if ch \<noteq> 10 then [(False, rest)] else [])"
| "ends Bol ic st = (if fst st then [st] else [])"
| "ends Eol ic st = (if snd st = [] \<or> snd st = [10] then [st] else [])"
| "ends (Seq r1 r2) ic st = concat (map (ends r2 ic) (ends r1 ic st))"
| "ends (Alt r1 r2) ic st = ends r1 ic st @ ends r2 ic st"
| "ends (Star r) ic st = star_ends (ends r ic) (length (snd st)) st"
| "ends (Plus r) ic st =
     concat (map (\<lambda>st'. star_ends (ends r ic) (length (snd st')) st') (ends r ic st))"

text \<open>\<open>pattern.match(s)\<close>: a match that starts at the start of \<open>s\<close>.\<close>

definition re_match :: "regex \<Rightarrow> bool \<Rightarrow> pystr \<Rightarrow> bool" where
  "re_match r ic s \<longleftrightarrow> ends r ic (True, s) \<noteq> []"

text \<open>\<open>pattern.search(s)\<close>: a match that starts anywhere in \<open>s\<close>, the end included.\<close>

fun search_from :: "regex \<Rightarrow> bool \<Rightarrow> bool \<Rightarrow> pystr \<Rightarrow> bool" where
  "search_from r ic b [] \<longleftrightarrow> ends r ic (b, []) \<noteq> []"
| "search_from r ic b (c # cs) \<longleftrightarrow> ends r ic (b, c # cs) \<noteq> [] \<or> search_from r ic False cs"

definition re_search :: "regex \<Rightarrow> bool \<Rightarrow> pystr \<Rightarrow> bool" where
  "re_search r ic s \<longleftrightarrow> search_from r ic True s"

text \<open>A sequence of patterns, and a literal string.\<close>

definition seqs :: "regex list \<Rightarrow> regex" where
  "seqs rs = foldr Seq rs Eps"

definition lits :: "nat list \<Rightarrow> regex" where
  "lits cs = seqs (map Lit cs)"

section \<open>Hallucination filter (hallucination\_filter.py)\<close>

record HallucinationStats =
  total_filtered :: int
  repetition_filtered :: int
  pattern_filtered :: int

record HallucinationFilter =
  hf_enabled :: bool
  min_repetition_count :: int
  max_repetition_length :: int
  hf_stats :: HallucinationStats

text \<open>
  \<open>HALLUCINATION_PATTERNS\<close>, in the order of the source, each compiled with
  \<open>re.IGNORECASE | re.UNICODE\<close>:
  \<^verbatim>\<open>^<jimaku teikyou>.*$\<close>, \<^verbatim>\<open>^<goshichou arigatou gozaimashita>.*$\<close>,
  \<^verbatim>\<open>^<channeru touroku>.*$\<close>, \<^verbatim>\<open>^<otsukaresama deshita>$\<close>, \<^verbatim>\<open>^\.+$\<close>, \<^verbatim>\<open>^,+$\<close>,
  \<^verbatim>\<open>^[\s\u3000]+$\<close>, \<^verbatim>\<open>(?:music|U+266A|U+266B)+\<close>, \<^verbatim>\<open>\[<ongaku>\]\<close>, \<^verbatim>\<open>\[<hakushu>\]\<close>,
  \<^verbatim>\<open>^\s*<o>\s*$\<close>, \<^verbatim>\<open>^\s*<n>\s*$\<close>.
\<close>

definition HALLUCINATION_PATTERNS :: "regex list" where
  "HALLUCINATION_PATTERNS =
    [seqs [Bol, lits [23383, 24149, 25552, 20379], Star Any, Eol],
     seqs [Bol, lits [12372, 35222, 32884, 12354, 12426, 12364, 12392, 12358, 12372, 12374,
                      12356, 12414, 12375, 12383], Star Any, Eol],
     seqs [Bol, lits [12481, 12515, 12531, 12493, 12523, 30331, 37682], Star Any, Eol],
     seqs [Bol, lits [12362, 30130, 12428, 27096, 12391, 12375, 12383], Eol],
     seqs [Bol, Plus (Lit 46), Eol],
     seqs [Bol, Plus (Lit 44), Eol],
     seqs [Bol, Plus (Alt Space (Lit 12288)), Eol],
     Plus (Alt (lits [109, 117, 115, 105, 99]) (Alt (Lit 9834) (Lit 9835))),
     lits [91, 38899, 27005, 93],
     lits [91, 25293, 25163, 93],
     seqs [Bol, Star Space, Lit 12362, Star Space, Eol],
     seqs [Bol, Star Space, Lit 12435, Star Space, Eol]]"

definition HallucinationFilter_init :: "bool \<Rightarrow> int \<Rightarrow> int \<Rightarrow> HallucinationFilter" where
  "HallucinationFilter_init en minc maxlen =
     \<lparr>hf_enabled = en, min_repetition_count = minc, max_repetition_length = maxlen,
      hf_stats = \<lparr>total_filtered = 0, repetition_filtered = 0, pattern_filtered = 0\<rparr>\<rparr>"

text \<open>The defaults of the constructor: \<open>enabled=True\<close>, 3 repetitions, phrases up to 20.\<close>

definition HallucinationFilter_default :: HallucinationFilter where
  "HallucinationFilter_default = HallucinationFilter_init True 3 20"

text \<open>
  The loop of \<open>detect_repetition\<close> over the candidate phrase lengths.  The source tests
  \<open>expected_len / len(text) >= 0.8\<close> in floating point; both operands are lengths, the
  quotient is correctly rounded and \<open>0.8\<close> is the double nearest to 4/5, so below \<open>2^50\<close>
  code points the test is \<open>5 * expected_len >= 4 * len(text)\<close>.  A candidate length is at
  most half of \<open>len(text)\<close>, so the divisor is never 0.
\<close>

fun scan_phrases :: "int \<Rightarrow> pystr \<Rightarrow> nat list \<Rightarrow> bool \<times> pystr option" where
  "scan_phrases minc text [] = (False, None)"
| "scan_phrases minc text (phrase_len # others) =
     (let phrase = take phrase_len text;
          repetitions = py_count text phrase
      in if minc \<le> int repetitions \<and> 4 * length text \<le> 5 * (length phrase * repetitions)
         then (True, Some phrase)
         else scan_phrases minc text others)"

text \<open>\<open>range(2, min(max_repetition_length + 1, len(text) // 2 + 1))\<close>.\<close>

definition phrase_lengths :: "int \<Rightarrow> pystr \<Rightarrow> nat list" where
  "phrase_lengths maxlen text = [2 ..< nat (min (maxlen + 1) (int (length text div 2) + 1))]"

definition substring_repetition :: "HallucinationFilter \<Rightarrow> pystr \<Rightarrow> bool \<times> pystr option" where
  "substring_repetition f text =
     scan_phrases (min_repetition_count f) text (phrase_lengths (max_repetition_length f) text)"

definition detect_repetition :: "HallucinationFilter \<Rightarrow> pystr \<Rightarrow> bool \<times> pystr option" where
  "detect_repetition f text0 =
     (if text0 = [] \<or> length text0 < 6 then (False, None)
      else let text = py_strip text0;
               words = py_split text
           in if min_repetition_count f \<le> int (length words) \<and> length (remdups words) = 1
              then (True, Some (hd words))
              else substring_repetition f text)"

definition detect_pattern_hallucination :: "pystr \<Rightarrow> bool" where
  "detect_pattern_hallucination text \<longleftrightarrow>
     text \<noteq> [] \<and> list_ex (\<lambda>p. re_search p True text) HALLUCINATION_PATTERNS"

text \<open>
  \<open>filter\<close>: the filter with its counters updated, and the triple
  \<open>(filtered_text, was_filtered, reason)\<close>.
\<close>

definition count_pattern :: "HallucinationFilter \<Rightarrow> HallucinationFilter" where
  "count_pattern f =
     f\<lparr>hf_stats := (hf_stats f)\<lparr>total_filtered := total_filtered (hf_stats f) + 1,
                                 pattern_filtered := pattern_filtered (hf_stats f) + 1\<rparr>\<rparr>"

definition count_repetition :: "HallucinationFilter \<Rightarrow> HallucinationFilter" where
  "count_repetition f =
     f\<lparr>hf_stats := (hf_stats f)\<lparr>total_filtered := total_filtered (hf_stats f) + 1,
                                 repetition_filtered := repetition_filtered (hf_stats f) + 1\<rparr>\<rparr>"

definition filter_text ::
  "HallucinationFilter \<Rightarrow> pystr \<Rightarrow> HallucinationFilter \<times> (pystr \<times> bool \<times> pystr option)" where
  "filter_text f text =
     (if \<not> hf_enabled f \<or> text = [] then (f, (text, False, None))
      else if detect_pattern_hallucination text
      then (count_pattern f, ([], True, Some (ustr ''pattern_match'')))
      else case detect_repetition f text of
             (True, repeated_phrase) \<Rightarrow>
               (case repeated_phrase of
                  Some phrase \<Rightarrow>
                    if phrase \<noteq> []
                    then (count_repetition f,
                          (py_strip phrase, True, Some (ustr ''repetition:'' @ phrase)))
                    else (count_repetition f, ([], True, Some (ustr ''repetition'')))
                | None \<Rightarrow> (count_repetition f, ([], True, Some (ustr ''repetition''))))
           | (False, _) \<Rightarrow> (f, (text, False, None)))"

section \<open>Transcription statistics (whisper.py)\<close>

record TranscriptionStats =
  total_requests :: int
  successful_requests :: int
  failed_requests :: int
  total_processing_time :: real
  total_audio_seconds :: real

definition TranscriptionStats_init :: TranscriptionStats where
  "TranscriptionStats_init =
     \<lparr>total_requests = 0, successful_requests = 0, failed_requests = 0,
      total_processing_time = 0, total_audio_seconds = 0\<rparr>"

text \<open>\<open>TranscriptionStats.record(processing_time, success, audio_duration_seconds)\<close>.\<close>

definition record_stats :: "TranscriptionStats \<Rightarrow> real \<Rightarrow> bool \<Rightarrow> real \<Rightarrow> TranscriptionStats" where
  "record_stats s processing_time success audio_duration_seconds =
     (let s1 = s\<lparr>total_requests := total_requests s + 1,
                 total_processing_time := total_processing_time s + processing_time,
                 total_audio_seconds := total_audio_seconds s + audio_duration_seconds\<rparr>
      in if success then s1\<lparr>successful_requests := successful_requests s1 + 1\<rparr>
         else s1\<lparr>failed_requests := failed_requests s1 + 1\<rparr>)"

definition avg_processing_time :: "TranscriptionStats \<Rightarrow> real" where
  "avg_processing_time s =
     (if total_requests s = 0 then 0 else total_processing_time s / real_of_int (total_requests s))"

definition success_rate :: "TranscriptionStats \<Rightarrow> real" where
  "success_rate s =
     (if total_requests s = 0 then 1
      else real_of_int (successful_requests s) / real_of_int (total_requests s))"

text \<open>A run of \<open>record\<close> calls, each with its three arguments.\<close>

fun record_all :: "TranscriptionStats \<Rightarrow> (real \<times> bool \<times> real) list \<Rightarrow> TranscriptionStats" where
  "record_all s [] = s"
| "record_all s ((t, ok, d) # rs) = record_all (record_stats s t ok d) rs"

section \<open>Filler-word filter (aizuchi\_filter.py)\<close>

text \<open>
  The source keeps the pattern strings and their compiled forms in two parallel lists; the
  model keeps the compiled list.  The patterns are compiled without flags.
\<close>

record AizuchiFilter =
  compiled :: "regex list"
  max_length :: int
  af_enabled :: bool

text \<open>\<open>[\<dots>]*\<close> over the three closing marks U+3002, U+FF0E, U+3001, which ends every pattern.\<close>

definition MARKS :: regex where
  "MARKS = Star (In [12290, 65294, 12289])"

text \<open>\<open>DEFAULT_PATTERNS\<close>, in the order of the source.\<close>

definition DEFAULT_PATTERNS :: "regex list" where
  "DEFAULT_PATTERNS =
    [seqs [Bol, Lit 12358, Lit 12435, MARKS, Eol],
     seqs [Bol, Lit 12435, Star (In [12540, 12316]), MARKS, Eol],
     seqs [Bol, Lit 12399, Lit 12356, MARKS, Eol],
     seqs [Bol, Lit 12360, Lit 12360, MARKS, Eol],
     seqs [Bol, Lit 12408, Lit 12540, Star (In [12540]), MARKS, Eol],
     seqs [Bol, Lit 12360, Lit 12540, Star (In [12387, 12392]), MARKS, Eol],
     seqs [Bol, Lit 12354, Lit 12540, MARKS, Eol],
     seqs [Bol, Lit 12414, Lit 12354, MARKS, Eol],
     seqs [Bol, Lit 12360, Lit 12387, Lit 12392, MARKS, Eol],
     seqs [Bol, Lit 12354, Lit 12398, Star (Lit 12540), MARKS, Eol],
     seqs [Bol, Lit 12381, Lit 12398, Star (In [12540]), MARKS, Eol],
     seqs [Bol, Lit 12394, Lit 12435, Lit 12363, MARKS, Eol],
     seqs [Bol, Lit 12381, Lit 12358, Lit 12391, Lit 12377, Lit 12397, MARKS, Eol],
     seqs [Bol, Lit 12394, Lit 12427, Lit 12411, Lit 12393, Star (In [12397]), MARKS, Eol],
     seqs [Bol, Lit 30906, Lit 12363, Lit 12395, MARKS, Eol],
     seqs [Bol, Lit 12381, Lit 12358, Lit 12381, Lit 12358, MARKS, Eol],
     seqs [Bol, Lit 12381, Lit 12387, Lit 12363, Star (In [12540]), MARKS, Eol],
     seqs [Bol, Lit 12381, Lit 12358, Lit 12384, Lit 12397, MARKS, Eol],
     seqs [Bol, Lit 12384, Lit 12397, MARKS, Eol],
     seqs [Bol, Lit 12397, Star (In [12540]), MARKS, Eol],
     seqs [Bol, Lit 12362, Lit 12540, MARKS, Eol],
     seqs [Bol, Lit 12431, Lit 12540, MARKS, Eol],
     seqs [Bol, Lit 12377, Lit 12372, Lit 12356, MARKS, Eol],
     seqs [Bol, Lit 12405, Lit 12540, Lit 12435, MARKS, Eol],
     seqs [Bol, Lit 12411, Lit 12540, MARKS, Eol],
     seqs [Bol, Plus (In [31505, 12431, 12399, 119]), MARKS, Eol],
     seqs [Bol, Lit 40, Lit 31505, Lit 41, MARKS, Eol],
     seqs [Bol, Lit 12405, Lit 12405, Star (In [12405]), MARKS, Eol],
     seqs [Bol, Lit 12354, Lit 12399, Star (In [12399]), MARKS, Eol]]"

definition AizuchiFilter_init :: "regex list option \<Rightarrow> int \<Rightarrow> bool \<Rightarrow> AizuchiFilter" where
  "AizuchiFilter_init patterns maxlen en =
     \<lparr>compiled = (case patterns of None \<Rightarrow> DEFAULT_PATTERNS
                   | Some ps \<Rightarrow> if ps = [] then DEFAULT_PATTERNS else ps),
      max_length = maxlen, af_enabled = en\<rparr>"

text \<open>The defaults of the constructor: the default patterns, \<open>max_length=15\<close>, enabled.\<close>

definition AizuchiFilter_default :: AizuchiFilter where
  "AizuchiFilter_default = AizuchiFilter_init None 15 True"

definition is_aizuchi :: "AizuchiFilter \<Rightarrow> pystr \<Rightarrow> bool" where
  "is_aizuchi f text =
     (if \<not> af_enabled f then False
      else let t = py_strip text
           in if max_length f < int (length t) then False
              else if length t = 0 then False
              else list_ex (\<lambda>pattern. re_match pattern False t) (compiled f))"

definition add_pattern :: "AizuchiFilter \<Rightarrow> regex \<Rightarrow> AizuchiFilter" where
  "add_pattern f pattern = f\<lparr>compiled := compiled f @ [pattern]\<rparr>"

definition remove_pattern :: "AizuchiFilter \<Rightarrow> regex \<Rightarrow> AizuchiFilter \<times> bool" where
  "remove_pattern f pattern =
     (if pattern \<in> set (compiled f) then (f\<lparr>compiled := remove1 pattern (compiled f)\<rparr>, True)
      else (f, False))"

section \<open>Hotwords registry (hotwords.py)\<close>

text \<open>\<open>xs[:n]\<close> for a Python integer \<open>n\<close>: a negative \<open>n\<close> counts from the end.\<close>

definition py_slice_to :: "'a list \<Rightarrow> int \<Rightarrow> 'a list" where
  "py_slice_to xs n = (if n < 0 then take (nat (int (length xs) + n)) xs else take (nat n) xs)"

text \<open>\<open>add\<close>: the registry and whether the word was added.\<close>

definition add :: "pystr list \<Rightarrow> pystr \<Rightarrow> pystr list \<times> bool" where
  "add hotwords word = (if word \<notin> set hotwords then (hotwords @ [word], True) else (hotwords, False))"

text \<open>The loop of \<open>merge_with_request_hotwords\<close> over the request words.\<close>

fun merge_loop :: "pystr list \<Rightarrow> pystr list \<Rightarrow> pystr list" where
  "merge_loop combined [] = combined"
| "merge_loop combined (word # ws) =
     merge_loop (if word \<notin> set combined then combined @ [word] else combined) ws"

definition merge_with_request_hotwords :: "pystr list \<Rightarrow> pystr list option \<Rightarrow> int \<Rightarrow> pystr" where
  "merge_with_request_hotwords hotwords request_hotwords max_total =
     (let combined = (case request_hotwords of None \<Rightarrow> hotwords
                      | Some req \<Rightarrow> if req \<noteq> [] then merge_loop hotwords req else hotwords);
          combined = py_slice_to combined max_total
      in if combined \<noteq> [] then py_join (ustr '', '') combined else [])"

section \<open>Transcription service (whisper.py)\<close>

text \<open>
  A value of \<open>py_exception\<close> is an instance of \<open>Exception\<close> or of a subclass, which is what
  the handlers of the service (\<open>except Exception\<close>) catch.
\<close>

datatype py_exception = RuntimeError string | ValueError string | Raised string string

record Segment =
  seg_text :: pystr
  avg_logprob :: real

text \<open>
  What the local model is called with.  The decoding parameters of the configuration
  (beam size, temperature, voice activity detection) pass through unchanged and are left out.
\<close>

record local_request =
  req_audio_path :: pystr
  req_language :: pystr
  req_initial_prompt :: "pystr option"

text \<open>
  A provider is an object outside the repository: it is modelled by its state (\<open>'m\<close> for the
  local model, \<open>'c\<close> for a cloud provider) and by the function that one call of its
  \<open>transcribe\<close> is, from the state and the arguments to the outcome and the new state.  The
  local model yields its segments and the duration of \<open>info\<close> (when it has one), a cloud
  provider \<open>(text, confidence, processing_time)\<close>; either may raise.
\<close>

type_synonym 'm local_run =
  "'m \<Rightarrow> local_request \<Rightarrow> (py_exception + Segment list \<times> real option) \<times> 'm"

type_synonym 'c cloud_run =
  "'c \<Rightarrow> pystr \<Rightarrow> pystr \<Rightarrow> (py_exception + pystr \<times> real \<times> real) \<times> 'c"

record ('m, 'c) WhisperService =
  provider_type :: string
  model :: "'m option"
  cloud_provider :: "'c option"
  stats :: TranscriptionStats
  aizuchi_filter :: AizuchiFilter
  hallucination_filter :: HallucinationFilter
  hotwords :: "pystr list"

text \<open>
  \<open>__init__\<close>.  Of the configuration the provider kind and \<open>aizuchi_max_length\<close> are read
  here; \<open>initial_hotwords\<close> is the registry after the three loads of the constructor (file,
  configuration, environment).  Both filters are built with \<open>enabled=False\<close>.
\<close>

definition WhisperService_init :: "string \<Rightarrow> int \<Rightarrow> pystr list \<Rightarrow> ('m, 'c) WhisperService" where
  "WhisperService_init provider aizuchi_max_length initial_hotwords =
     \<lparr>provider_type = provider, model = None, cloud_provider = None,
      stats = TranscriptionStats_init,
      aizuchi_filter = AizuchiFilter_init None aizuchi_max_length False,
      hallucination_filter = HallucinationFilter_init False 3 20,
      hotwords = initial_hotwords\<rparr>"

definition is_cloud :: "string \<Rightarrow> bool" where
  "is_cloud kind \<longleftrightarrow> kind = ''groq'' \<or> kind = ''openai''"

text \<open>
  \<open>load_model\<close>.  \<open>new_model\<close> is the outcome of building the local model, \<open>new_provider\<close>
  that of \<open>create_provider\<close> and \<open>ready\<close> the answer of \<open>is_ready\<close> of the new provider.
\<close>

definition load_model ::
  "('m, 'c) WhisperService \<Rightarrow> py_exception + 'm \<Rightarrow> py_exception + 'c option \<Rightarrow> ('c \<Rightarrow> bool) \<Rightarrow>
   ('m, 'c) WhisperService \<times> (py_exception + unit)" where
  "load_model svc new_model new_provider ready =
     (if provider_type svc = ''local''
      then (case new_model of Inl e \<Rightarrow> (svc, Inl e) | Inr m \<Rightarrow> (svc\<lparr>model := Some m\<rparr>, Inr ()))
      else if is_cloud (provider_type svc)
      then (case new_provider of
              Inl e \<Rightarrow> (svc, Inl e)
            | Inr p \<Rightarrow>
                (case p of
                   Some c \<Rightarrow>
                     if ready c then (svc\<lparr>cloud_provider := p\<rparr>, Inr ())
                     else (svc\<lparr>cloud_provider := p\<rparr>,
                           Inl (RuntimeError (''Failed to initialize '' @ provider_type svc @ '' provider'')))
                 | None \<Rightarrow>
                     (svc\<lparr>cloud_provider := p\<rparr>,
                      Inl (RuntimeError (''Failed to initialize '' @ provider_type svc @ '' provider'')))))
      else (svc, Inl (ValueError (''Unknown provider type: '' @ provider_type svc))))"

text \<open>
  \<open>_transcribe_cloud\<close>.  \<open>t_start\<close> and \<open>t_end\<close> are the readings of \<open>time.time()\<close> before the
  \<open>try\<close> and in the handler.
\<close>

definition transcribe_cloud ::
  "'c cloud_run \<Rightarrow> ('m, 'c) WhisperService \<Rightarrow> pystr \<Rightarrow> pystr \<Rightarrow> real \<Rightarrow> real \<Rightarrow>
   ('m, 'c) WhisperService \<times> (py_exception + pystr \<times> real \<times> real)" where
  "transcribe_cloud run svc audio_path language t_start t_end =
     (case cloud_provider svc of
        None \<Rightarrow> (svc, Inl (RuntimeError ''Cloud provider not initialized. Call load_model() first.''))
      | Some c \<Rightarrow>
          (case run c audio_path language of
             (Inl e, c') \<Rightarrow>
               (svc\<lparr>cloud_provider := Some c',
                    stats := record_stats (stats svc) (t_end - t_start) False 0\<rparr>, Inl e)
           | (Inr (text0, confidence, processing_time), c') \<Rightarrow>
               (case filter_text (hallucination_filter svc) text0 of
                  (hf, (text, was_hallucination, hallucination_reason)) \<Rightarrow>
                    (svc\<lparr>cloud_provider := Some c', hallucination_filter := hf,
                         stats := record_stats (stats svc) processing_time (0 < length text) 0\<rparr>,
                     Inr (text, confidence, processing_time)))))"

text \<open>
  The loop of \<open>_transcribe_local\<close> over the segments; the accumulator is
  \<open>(text_parts, total_logprob, segment_count, filtered_count)\<close>.
\<close>

fun collect_segments ::
  "AizuchiFilter \<Rightarrow> bool \<Rightarrow> Segment list \<Rightarrow> pystr list \<times> real \<times> nat \<times> nat \<Rightarrow>
   pystr list \<times> real \<times> nat \<times> nat" where
  "collect_segments af filter_aizuchi [] acc = acc"
| "collect_segments af filter_aizuchi (segment # rest)
     (text_parts, total_logprob, segment_count, filtered_count) =
     (let text = py_strip (seg_text segment)
      in if filter_aizuchi \<and> is_aizuchi af text
         then collect_segments af filter_aizuchi rest
                (text_parts, total_logprob, segment_count, filtered_count + 1)
         else collect_segments af filter_aizuchi rest
                (text_parts @ [text], total_logprob + avg_logprob segment, segment_count + 1,
                 filtered_count))"

text \<open>
  The confidence of \<open>_transcribe_local\<close>, from the sum and the number of the kept segments.
  The source computes in floating point; the model computes in the reals.
\<close>

definition confidence_of :: "real \<Rightarrow> nat \<Rightarrow> real" where
  "confidence_of total_logprob segment_count =
     (if 0 < segment_count
      then (let avg = total_logprob / real segment_count in min 1 (max 0 (1 + avg / 3)))
      else 0)"

text \<open>The context sentence of the Japanese prompt, and the clause that starts the terms.\<close>

definition base_prompt :: pystr where
  "base_prompt =
     [12371, 12428, 12399, 26085, 26412, 35486, 12398, 20250, 35441, 12391, 12377, 12290,
      68, 105, 115, 99, 111, 114, 100, 12398, 12508, 12452, 12473, 12481, 12515, 12531, 12493,
      12523, 12391, 35441, 12375, 12390, 12356, 12414, 12377, 12290]"

definition terms_clause :: pystr where
  "terms_clause = [32, 29992, 35486, 58, 32]"

definition build_prompt :: "pystr \<Rightarrow> pystr \<Rightarrow> pystr option" where
  "build_prompt language hotwords_prompt =
     (if language = ustr ''ja''
      then (if hotwords_prompt \<noteq> [] then Some (base_prompt @ terms_clause @ hotwords_prompt)
            else Some base_prompt)
      else (if hotwords_prompt \<noteq> [] then Some hotwords_prompt else None))"

definition transcribe_local ::
  "'m local_run \<Rightarrow> ('m, 'c) WhisperService \<Rightarrow> pystr \<Rightarrow> pystr \<Rightarrow> bool \<Rightarrow> pystr list option \<Rightarrow>
   real \<Rightarrow> real \<Rightarrow> ('m, 'c) WhisperService \<times> (py_exception + pystr \<times> real \<times> real)" where
  "transcribe_local run svc audio_path language filter_aizuchi additional_hotwords t_start t_end =
     (case model svc of
        None \<Rightarrow> (svc, Inl (RuntimeError ''Local model not loaded. Call load_model() first.''))
      | Some m \<Rightarrow>
          (let hotwords_prompt = merge_with_request_hotwords (hotwords svc) additional_hotwords 50;
               initial_prompt = build_prompt language hotwords_prompt
           in case run m \<lparr>req_audio_path = audio_path, req_language = language,
                          req_initial_prompt = initial_prompt\<rparr> of
                (Inl e, m') \<Rightarrow>
                  (svc\<lparr>model := Some m',
                       stats := record_stats (stats svc) (t_end - t_start) False 0\<rparr>, Inl e)
              | (Inr (segments, duration), m') \<Rightarrow>
                  (case collect_segments (aizuchi_filter svc) filter_aizuchi segments ([], 0, 0, 0) of
                     (text_parts, total_logprob, segment_count, filtered_count) \<Rightarrow>
                       (case filter_text (hallucination_filter svc)
                               (py_strip (py_join (ustr '' '') text_parts)) of
                          (hf, (text, was_hallucination, hallucination_reason)) \<Rightarrow>
                            (let confidence = confidence_of total_logprob segment_count;
                                 processing_time = t_end - t_start
                             in (svc\<lparr>model := Some m', hallucination_filter := hf,
                                     stats := record_stats (stats svc) processing_time
                                                (0 < length text)
                                                (case duration of Some d \<Rightarrow> d | None \<Rightarrow> 0)\<rparr>,
                                 Inr (text, confidence, processing_time)))))))"

text \<open>\<open>transcribe\<close>: the cloud path for the kinds \<open>groq\<close> and \<open>openai\<close>, else the local path.\<close>

definition transcribe ::
  "'m local_run \<Rightarrow> 'c cloud_run \<Rightarrow> ('m, 'c) WhisperService \<Rightarrow> pystr \<Rightarrow> pystr \<Rightarrow> bool \<Rightarrow>
   pystr list option \<Rightarrow> real \<Rightarrow> real \<Rightarrow>
   ('m, 'c) WhisperService \<times> (py_exception + pystr \<times> real \<times> real)" where
  "transcribe lrun crun svc audio_path language filter_aizuchi additional_hotwords t_start t_end =
     (if is_cloud (provider_type svc) then transcribe_cloud crun svc audio_path language t_start t_end
      else transcribe_local lrun svc audio_path language filter_aizuchi additional_hotwords
             t_start t_end)"

text \<open>
  The operations on a service: its own methods, and the methods of the two filters and of
  the registry, which are public attributes.  \<open>run_ops\<close> applies a sequence of them.
\<close>

datatype ('m, 'c) operation =
    LoadModel "py_exception + 'm" "py_exception + 'c option" "'c \<Rightarrow> bool"
  | Transcribe pystr pystr bool "pystr list option" real real
  | FilterText pystr
  | AddPattern regex
  | RemovePattern regex
  | AddHotword pystr

fun apply_op ::
  "'m local_run \<Rightarrow> 'c cloud_run \<Rightarrow> ('m, 'c) WhisperService \<Rightarrow> ('m, 'c) operation \<Rightarrow>
   ('m, 'c) WhisperService" where
  "apply_op lrun crun svc (LoadModel nm np ready) = fst (load_model svc nm np ready)"
| "apply_op lrun crun svc (Transcribe path lang fa extra t0 t1) =
     fst (transcribe lrun crun svc path lang fa extra t0 t1)"
| "apply_op lrun crun svc (FilterText text) =
     svc\<lparr>hallucination_filter := fst (filter_text (hallucination_filter svc) text)\<rparr>"
| "apply_op lrun crun svc (AddPattern p) =
     svc\<lparr>aizuchi_filter := add_pattern (aizuchi_filter svc) p\<rparr>"
| "apply_op lrun crun svc (RemovePattern p) =
     svc\<lparr>aizuchi_filter := fst (remove_pattern (aizuchi_filter svc) p)\<rparr>"
| "apply_op lrun crun svc (AddHotword w) = svc\<lparr>hotwords := fst (add (hotwords svc) w)\<rparr>"

fun run_ops ::
  "'m local_run \<Rightarrow> 'c cloud_run \<Rightarrow> ('m, 'c) WhisperService \<Rightarrow> ('m, 'c) operation list \<Rightarrow>
   ('m, 'c) WhisperService" where
  "run_ops lrun crun svc [] = svc"
| "run_ops lrun crun svc (x # xs) = run_ops lrun crun (apply_op lrun crun svc x) xs"

section \<open>The specification's wording, for comparison\<close>

text \<open>
  The substring detector as the specification words it: the candidate prefix lengths are
  those from 2 up to the smaller of the maximal phrase length and half the length of the
  text; a length qualifies when its prefix occurs at least the minimal number of times and
  the occurrences cover at least 80% (four fifths) of the text; the first qualifying length,
  in increasing order, gives the phrase.
\<close>

definition spec_qualifies :: "int \<Rightarrow> pystr \<Rightarrow> nat \<Rightarrow> bool" where
  "spec_qualifies minc text n \<longleftrightarrow>
     minc \<le> int (py_count text (take n text)) \<and>
     4 * length text \<le> 5 * (py_count text (take n text) * n)"

definition spec_candidates :: "int \<Rightarrow> pystr \<Rightarrow> nat list" where
  "spec_candidates maxlen text =
     filter (\<lambda>n. 2 \<le> n \<and> int n \<le> min maxlen (int (length text div 2))) [0 ..< Suc (length text)]"

definition spec_substring_repetition :: "int \<Rightarrow> int \<Rightarrow> pystr \<Rightarrow> bool \<times> pystr option" where
  "spec_substring_repetition minc maxlen text =
     (case find (spec_qualifies minc text) (spec_candidates maxlen text) of
        None \<Rightarrow> (False, None)
      | Some n \<Rightarrow> (True, Some (take n text)))"

text \<open>
  The merge of the registry with the request terms as the specification words it: the
  request terms that the registry does not hold are appended to it, each once, and the
  combined list is cut to its first \<open>max_total\<close> entries and joined.
\<close>

fun drop_repeats :: "'a list \<Rightarrow> 'a list" where
  "drop_repeats [] = []"
| "drop_repeats (x # xs) = x # drop_repeats (removeAll x xs)"

definition spec_merge :: "pystr list \<Rightarrow> pystr list \<Rightarrow> nat \<Rightarrow> pystr" where
  "spec_merge registry request_terms max_total =
     py_join (ustr '', '')
       (take max_total
          (registry @ drop_repeats (filter (\<lambda>w. w \<notin> set registry) request_terms)))"

text \<open>
  The confidence as the specification words it: the segments that the filler filter does not
  drop are kept; the confidence is 0 without kept segments, else
  \<open>clamp(0, 1, 1.0 + averageLogProbability / 3)\<close> for the mean over the kept segments.
\<close>

definition kept_segments :: "AizuchiFilter \<Rightarrow> bool \<Rightarrow> Segment list \<Rightarrow> Segment list" where
  "kept_segments af filter_aizuchi segments =
     filter (\<lambda>s. \<not> (filter_aizuchi \<and> is_aizuchi af (py_strip (seg_text s)))) segments"

definition average_logprob :: "Segment list \<Rightarrow> real" where
  "average_logprob kept = sum_list (map avg_logprob kept) / real (length kept)"

definition clamp :: "real \<Rightarrow> real \<Rightarrow> real \<Rightarrow> real" where
  "clamp lo hi x = (if x < lo then lo else if hi < x then hi else x)"

definition spec_confidence :: "Segment list \<Rightarrow> real" where
  "spec_confidence kept = (if kept = [] then 0 else clamp 0 1 (1 + average_logprob kept / 3))"

section \<open>Evaluation of the definitions\<close>

lemmas rx_eval = ustr_def re_search_def re_match_def seqs_def lits_def lit_matches_def
  iscased_def tolower_def ignorecase_fixes_def py_isspace_def

lemmas hf_default = HallucinationFilter_default_def HallucinationFilter_init_def

lemmas af_default = AizuchiFilter_default_def AizuchiFilter_init_def

section \<open>Properties of the string functions\<close>

lemma split_from_snoc_space:
  "py_isspace c \<Longrightarrow> split_from cur (s @ [c]) = split_from cur s"
  by (induction s arbitrary: cur) simp_all

lemma split_from_append_spaces:
  "\<forall>c \<in> set ws. py_isspace c \<Longrightarrow> split_from cur (s @ ws) = split_from cur s"
proof (induction ws rule: rev_induct)
  case Nil
  then show ?case by simp
next
  case (snoc w ws)
  have "split_from cur (s @ ws @ [w]) = split_from cur ((s @ ws) @ [w])" by simp
  also have "\<dots> = split_from cur (s @ ws)"
    using snoc.prems by (intro split_from_snoc_space) simp
  finally show ?case using snoc by simp
qed

lemma split_from_dropWhile:
  "split_from [] (dropWhile py_isspace s) = split_from [] s"
  by (induction s) simp_all

lemma py_split_strip: "py_split (py_strip s) = py_split s"
proof -
  let ?d = "dropWhile py_isspace s"
  have "?d = py_strip s @ rev (takeWhile py_isspace (rev ?d))"
    unfolding py_strip_def by (metis rev_append rev_rev_ident takeWhile_dropWhile_id)
  moreover have "\<forall>c \<in> set (rev (takeWhile py_isspace (rev ?d))). py_isspace c"
    by (auto dest: set_takeWhileD)
  ultimately have "split_from [] ?d = split_from [] (py_strip s)"
    by (metis split_from_append_spaces)
  then show ?thesis by (simp add: py_split_def split_from_dropWhile)
qed

lemma split_from_tokens:
  "t \<in> set (split_from cur s) \<Longrightarrow> \<forall>c \<in> set cur. \<not> py_isspace c \<Longrightarrow>
   t \<noteq> [] \<and> (\<forall>c \<in> set t. \<not> py_isspace c)"
proof (induction s arbitrary: cur)
  case Nil
  then show ?case by (cases "cur = []") simp_all
next
  case (Cons c cs)
  show ?case
  proof (cases "py_isspace c")
    case True
    show ?thesis
    proof (cases "cur = []")
      case True
      with \<open>py_isspace c\<close> Cons.prems(1) have "t \<in> set (split_from [] cs)" by simp
      then show ?thesis by (rule Cons.IH) simp
    next
      case False
      with \<open>py_isspace c\<close> Cons.prems(1) have "t = cur \<or> t \<in> set (split_from [] cs)" by simp
      then show ?thesis
      proof
        assume "t = cur"
        with False Cons.prems(2) show ?thesis by simp
      next
        assume "t \<in> set (split_from [] cs)"
        then show ?thesis by (rule Cons.IH) simp
      qed
    qed
  next
    case False
    with Cons.prems(1) have "t \<in> set (split_from (cur @ [c]) cs)" by simp
    then show ?thesis
      by (rule Cons.IH) (use False Cons.prems(2) in auto)
  qed
qed

lemma py_split_tokens:
  "t \<in> set (py_split s) \<Longrightarrow> t \<noteq> [] \<and> (\<forall>c \<in> set t. \<not> py_isspace c)"
  using split_from_tokens [of t "[]" s] by (simp add: py_split_def)

lemma dropWhile_none: "\<forall>c \<in> set u. \<not> Q c \<Longrightarrow> dropWhile Q u = u"
  by (cases u) simp_all

lemma py_strip_no_space: "\<forall>c \<in> set t. \<not> py_isspace c \<Longrightarrow> py_strip t = t"
proof -
  assume a: "\<forall>c \<in> set t. \<not> py_isspace c"
  then have b: "\<forall>c \<in> set (rev t). \<not> py_isspace c" by simp
  have "py_strip t = rev (dropWhile py_isspace (rev t))"
    unfolding py_strip_def by (simp only: dropWhile_none [OF a])
  also have "\<dots> = rev (rev t)" by (simp only: dropWhile_none [OF b])
  finally show ?thesis by simp
qed

section \<open>Properties of the hallucination filter\<close>

lemma remdups_replicate_Suc: "remdups (replicate (Suc n) x) = [x]"
  by (induction n) simp_all

lemma detect_repetition_tokens:
  assumes "6 \<le> length text" and "py_split text = replicate (Suc m) tok"
    and "min_repetition_count f \<le> int (Suc m)"
  shows "detect_repetition f text = (True, Some tok)"
proof -
  have w: "py_split (py_strip text) = replicate (Suc m) tok"
    by (simp add: py_split_strip assms(2))
  have r: "length (remdups (replicate (Suc m) tok)) = 1"
    by (simp only: remdups_replicate_Suc) simp
  have h: "hd (replicate (Suc m) tok) = tok" by simp
  have c: "min_repetition_count f \<le> int (length (replicate (Suc m) tok))"
    using assms(3) by simp
  have t: "\<not> (text = [] \<or> length text < 6)" using assms(1) by auto
  show ?thesis
    unfolding detect_repetition_def Let_def w by (simp only: t c r h if_False if_True simp_thms)
qed

lemma filter_text_repetition:
  "hf_enabled f \<Longrightarrow> text \<noteq> [] \<Longrightarrow> \<not> detect_pattern_hallucination text \<Longrightarrow>
   detect_repetition f text = (True, Some phrase) \<Longrightarrow> phrase \<noteq> [] \<Longrightarrow>
   filter_text f text =
     (count_repetition f, (py_strip phrase, True, Some (ustr ''repetition:'' @ phrase)))"
  by (simp add: filter_text_def)

lemma filter_text_pattern:
  "hf_enabled f \<Longrightarrow> text \<noteq> [] \<Longrightarrow> detect_pattern_hallucination text \<Longrightarrow>
   filter_text f text = (count_pattern f, ([], True, Some (ustr ''pattern_match'')))"
  by (simp add: filter_text_def)

lemma filter_text_unchanged:
  "hf_enabled f \<Longrightarrow> text \<noteq> [] \<Longrightarrow> \<not> detect_pattern_hallucination text \<Longrightarrow>
   detect_repetition f text = (False, x) \<Longrightarrow> filter_text f text = (f, (text, False, None))"
  by (simp add: filter_text_def)


lemma phrase_lengths_le: "n \<in> set (phrase_lengths maxlen text) \<Longrightarrow> n \<le> length text"
  by (auto simp: phrase_lengths_def)

lemma filter_upt_interval: "b \<le> m \<Longrightarrow> filter (\<lambda>n. a \<le> n \<and> n < b) [0 ..< m] = [a ..< b]"
proof (rule sorted_distinct_set_unique)
  show "sorted (filter (\<lambda>n. a \<le> n \<and> n < b) [0 ..< m])" by (simp add: sorted_wrt_filter)
  show "distinct (filter (\<lambda>n. a \<le> n \<and> n < b) [0 ..< m])" by simp
  show "sorted [a ..< b]" by simp
  show "distinct [a ..< b]" by simp
  assume "b \<le> m"
  then show "set (filter (\<lambda>n. a \<le> n \<and> n < b) [0 ..< m]) = set [a ..< b]" by auto
qed

lemma spec_candidates_eq: "spec_candidates maxlen text = phrase_lengths maxlen text"
proof -
  let ?u = "nat (min (maxlen + 1) (int (length text div 2) + 1))"
  have u: "?u \<le> Suc (length text)" by simp
  have c: "(2 \<le> n \<and> int n \<le> min maxlen (int (length text div 2))) = (2 \<le> n \<and> n < ?u)" for n
    by auto
  show ?thesis
    unfolding spec_candidates_def phrase_lengths_def c
    by (rule filter_upt_interval [OF u])
qed

lemma scan_phrases_find:
  "\<forall>n \<in> set ns. n \<le> length text \<Longrightarrow>
   scan_phrases minc text ns =
     (case find (spec_qualifies minc text) ns of None \<Rightarrow> (False, None)
      | Some n \<Rightarrow> (True, Some (take n text)))"
  by (induction ns) (auto simp: spec_qualifies_def Let_def mult.commute)

lemma no_pattern_abc: "\<not> detect_pattern_hallucination (ustr ''abcabcabcabc'')"
  by (simp add: detect_pattern_hallucination_def HALLUCINATION_PATTERNS_def rx_eval)

lemma detect_repetition_abc:
  "detect_repetition HallucinationFilter_default (ustr ''abcabcabcabc'') = (True, Some (ustr ''abc''))"
  by (simp add: detect_repetition_def hf_default py_strip_def py_split_def
      substring_repetition_def phrase_lengths_def py_count_def Let_def ustr_def py_isspace_def
      upt_rec)

lemma filter_text_abc:
  "filter_text HallucinationFilter_default (ustr ''abcabcabcabc'') =
     (count_repetition HallucinationFilter_default,
      (ustr ''abc'', True, Some (ustr ''repetition:abc'')))"
proof -
  have e: "hf_enabled HallucinationFilter_default" by (simp add: hf_default)
  have s: "py_strip (ustr ''abc'') = ustr ''abc''"
    by (simp add: py_strip_def ustr_def py_isspace_def)
  have r: "ustr ''repetition:'' @ ustr ''abc'' = ustr ''repetition:abc''"
    by (simp add: ustr_def)
  have "filter_text HallucinationFilter_default (ustr ''abcabcabcabc'') =
     (count_repetition HallucinationFilter_default,
      (py_strip (ustr ''abc''), True, Some (ustr ''repetition:'' @ ustr ''abc'')))"
    by (rule filter_text_repetition [OF e _ no_pattern_abc detect_repetition_abc])
       (simp_all add: ustr_def)
  then show ?thesis by (simp only: s r)
qed

text \<open>
  C2.  The substring detector of \<open>detect_repetition\<close> is the detector of the specification:
  it takes the candidate prefix lengths from 2 up to the smaller of \<open>max_repetition_length\<close>
  and half the length of the text, in increasing order, and the first of them whose prefix
  occurs (without overlap) at least \<open>min_repetition_count\<close> times and covers at least 80% of
  the text gives the repeated phrase.  On \<open>abcabcabcabc\<close> the phrase is \<open>abc\<close>, and the filter
  returns it with reason \<open>repetition:abc\<close>.
\<close>

theorem substring_repetition_refines_spec:
  "substring_repetition f text =
     spec_substring_repetition (min_repetition_count f) (max_repetition_length f) text \<and>
   substring_repetition HallucinationFilter_default (ustr ''abcabcabcabc'') =
     (True, Some (ustr ''abc'')) \<and>
   detect_repetition HallucinationFilter_default (ustr ''abcabcabcabc'') =
     (True, Some (ustr ''abc'')) \<and>
   filter_text HallucinationFilter_default (ustr ''abcabcabcabc'') =
     (count_repetition HallucinationFilter_default,
      (ustr ''abc'', True, Some (ustr ''repetition:abc'')))"
proof -
  have "substring_repetition f text =
     spec_substring_repetition (min_repetition_count f) (max_repetition_length f) text"
    unfolding substring_repetition_def spec_substring_repetition_def spec_candidates_eq
    by (rule scan_phrases_find) (simp add: phrase_lengths_le)
  moreover have "substring_repetition HallucinationFilter_default (ustr ''abcabcabcabc'') =
     (True, Some (ustr ''abc''))"
    by (simp add: substring_repetition_def hf_default phrase_lengths_def py_count_def Let_def
        ustr_def upt_rec)
  ultimately show ?thesis
    using detect_repetition_abc filter_text_abc by simp
qed

theorem substring_repetition_refines_spec_witness:
  "substring_repetition HallucinationFilter_default (ustr ''abababababab'') =
     spec_substring_repetition 3 20 (ustr ''abababababab'') \<and>
   spec_substring_repetition 3 20 (ustr ''abababababab'') = (True, Some (ustr ''ab''))"
proof -
  have "spec_substring_repetition 3 20 (ustr ''abababababab'') = (True, Some (ustr ''ab''))"
    by (simp add: spec_substring_repetition_def spec_candidates_def spec_qualifies_def
        py_count_def ustr_def upt_rec)
  then show ?thesis
    using substring_repetition_refines_spec [of HallucinationFilter_default "ustr ''abababababab''"]
    by (simp add: hf_default)
qed

text \<open>
  C1, as the code has it.  A text of at least 6 code points that matches no boilerplate
  pattern and splits on whitespace into \<open>n \<ge> 3\<close> equal tokens is reduced by the enabled filter
  (minimum repetition count 3) to one token, with \<open>was_filtered\<close> true and reason
  \<open>repetition:<token>\<close>; the repetition counters go up by one.
\<close>

theorem filter_reduces_repeated_token:
  assumes "hf_enabled f" and "min_repetition_count f = 3"
    and "py_split text = replicate n tok" and "3 \<le> n"
    and "6 \<le> length text" and "\<not> detect_pattern_hallucination text"
  shows "filter_text f text =
           (count_repetition f, (tok, True, Some (ustr ''repetition:'' @ tok)))"
proof -
  obtain m where n: "n = Suc m" using assms(4) by (cases n) auto
  have d: "detect_repetition f text = (True, Some tok)"
    using assms(2,3,4,5) unfolding n by (intro detect_repetition_tokens) simp_all
  have "tok \<in> set (py_split text)" using assms(3) n by simp
  then have t: "tok \<noteq> [] \<and> (\<forall>c \<in> set tok. \<not> py_isspace c)" by (rule py_split_tokens)
  then have s: "py_strip tok = tok" by (simp add: py_strip_no_space)
  have e: "text \<noteq> []" using assms(5) by auto
  show ?thesis
    using filter_text_repetition [OF assms(1) e assms(6) d] t s by simp
qed

theorem filter_reduces_repeated_token_witness:
  "hf_enabled HallucinationFilter_default \<and>
   min_repetition_count HallucinationFilter_default = 3 \<and>
   py_split (ustr ''ab ab ab'') = replicate 3 (ustr ''ab'') \<and>
   6 \<le> length (ustr ''ab ab ab'') \<and>
   \<not> detect_pattern_hallucination (ustr ''ab ab ab'') \<and>
   filter_text HallucinationFilter_default (ustr ''ab ab ab'') =
     (count_repetition HallucinationFilter_default,
      (ustr ''ab'', True, Some (ustr ''repetition:ab'')))"
proof -
  have a: "hf_enabled HallucinationFilter_default"
    and b: "min_repetition_count HallucinationFilter_default = 3"
    by (simp_all add: hf_default)
  have c: "py_split (ustr ''ab ab ab'') = replicate 3 (ustr ''ab'')"
    by (simp add: py_split_def ustr_def py_isspace_def numeral_3_eq_3)
  have d: "6 \<le> length (ustr ''ab ab ab'')" by (simp add: ustr_def)
  have e: "\<not> detect_pattern_hallucination (ustr ''ab ab ab'')"
    by (simp add: detect_pattern_hallucination_def HALLUCINATION_PATTERNS_def rx_eval)
  have r: "ustr ''repetition:'' @ ustr ''ab'' = ustr ''repetition:ab''" by (simp add: ustr_def)
  show ?thesis
    using filter_reduces_repeated_token [OF a b c _ d e] a b c d e by (simp add: r)
qed

text \<open>
  C1 as stated fails on the code.  \<open>a a a\<close> is three equal tokens, but it has 5 code points
  and \<open>detect_repetition\<close> returns early below 6: the text comes back unchanged and unfiltered.
  \<open>music music music\<close> is three equal tokens, but the pattern check runs first and the result
  is the empty text with reason \<open>pattern_match\<close>.
\<close>

theorem filter_repeated_token_counterexample:
  "py_split (ustr ''a a a'') = replicate 3 (ustr ''a'') \<and>
   filter_text HallucinationFilter_default (ustr ''a a a'') =
     (HallucinationFilter_default, (ustr ''a a a'', False, None)) \<and>
   py_split (ustr ''music music music'') = replicate 3 (ustr ''music'') \<and>
   filter_text HallucinationFilter_default (ustr ''music music music'') =
     (count_pattern HallucinationFilter_default, ([], True, Some (ustr ''pattern_match'')))"
proof -
  have e: "hf_enabled HallucinationFilter_default" by (simp add: hf_default)
  have a1: "py_split (ustr ''a a a'') = replicate 3 (ustr ''a'')"
    by (simp add: py_split_def ustr_def py_isspace_def numeral_3_eq_3)
  have a2: "\<not> detect_pattern_hallucination (ustr ''a a a'')"
    by (simp add: detect_pattern_hallucination_def HALLUCINATION_PATTERNS_def rx_eval)
  have a3: "detect_repetition HallucinationFilter_default (ustr ''a a a'') = (False, None)"
    by (simp add: detect_repetition_def ustr_def)
  have a4: "filter_text HallucinationFilter_default (ustr ''a a a'') =
     (HallucinationFilter_default, (ustr ''a a a'', False, None))"
    by (rule filter_text_unchanged [OF e _ a2 a3]) (simp add: ustr_def)
  have m1: "py_split (ustr ''music music music'') = replicate 3 (ustr ''music'')"
    by (simp add: py_split_def ustr_def py_isspace_def numeral_3_eq_3)
  have m2: "detect_pattern_hallucination (ustr ''music music music'')"
    by (simp add: detect_pattern_hallucination_def HALLUCINATION_PATTERNS_def rx_eval)
  have m3: "filter_text HallucinationFilter_default (ustr ''music music music'') =
     (count_pattern HallucinationFilter_default, ([], True, Some (ustr ''pattern_match'')))"
    by (rule filter_text_pattern [OF e _ m2]) (simp add: ustr_def)
  show ?thesis using a1 a4 m1 m3 by simp
qed










section \<open>Properties of the filler-word filter\<close>

text \<open>
  C6.  \<open>is_aizuchi\<close> is false when the filter is disabled, when the trimmed fragment is
  longer than \<open>max_length\<close> (15 by default), whatever it holds, and when the trimmed fragment
  is empty; in every other case its answer is whether some pattern of the list matches the
  trimmed fragment.
\<close>

theorem is_aizuchi_guards:
  "(\<not> af_enabled f \<longrightarrow> \<not> is_aizuchi f text) \<and>
   (max_length f < int (length (py_strip text)) \<longrightarrow> \<not> is_aizuchi f text) \<and>
   (py_strip text = [] \<longrightarrow> \<not> is_aizuchi f text) \<and>
   (af_enabled f \<and> int (length (py_strip text)) \<le> max_length f \<and> py_strip text \<noteq> [] \<longrightarrow>
      is_aizuchi f text =
        list_ex (\<lambda>pattern. re_match pattern False (py_strip text)) (compiled f)) \<and>
   max_length AizuchiFilter_default = 15 \<and> af_enabled AizuchiFilter_default"
  by (simp add: is_aizuchi_def Let_def af_default)

theorem is_aizuchi_guards_witness:
  "max_length AizuchiFilter_default < int (length (py_strip (ustr ''wwwwwwwwwwwwwwww''))) \<and>
   list_ex (\<lambda>pattern. re_match pattern False (py_strip (ustr ''wwwwwwwwwwwwwwww'')))
     (compiled AizuchiFilter_default) \<and>
   \<not> is_aizuchi AizuchiFilter_default (ustr ''wwwwwwwwwwwwwwww'') \<and>
   is_aizuchi AizuchiFilter_default (ustr ''  www '') \<and>
   is_aizuchi AizuchiFilter_default [12358, 12435, 12290] \<and>
   \<not> is_aizuchi AizuchiFilter_default (ustr ''   '') \<and>
   \<not> is_aizuchi (AizuchiFilter_init None 15 False) (ustr ''www'')"
proof -
  have s: "py_strip (ustr ''wwwwwwwwwwwwwwww'') = ustr ''wwwwwwwwwwwwwwww''"
    "py_strip (ustr ''  www '') = ustr ''www''" "py_strip (ustr ''   '') = []"
    "py_strip [12358, 12435, 12290] = [12358, 12435, 12290]"
    by (simp_all add: py_strip_def ustr_def py_isspace_def)
  have c: "compiled AizuchiFilter_default = DEFAULT_PATTERNS" by (simp add: af_default)
  have m1: "list_ex (\<lambda>pattern. re_match pattern False (ustr ''wwwwwwwwwwwwwwww'')) DEFAULT_PATTERNS"
    by (simp add: DEFAULT_PATTERNS_def MARKS_def rx_eval)
  have m2: "list_ex (\<lambda>pattern. re_match pattern False (ustr ''www'')) DEFAULT_PATTERNS"
    by (simp add: DEFAULT_PATTERNS_def MARKS_def rx_eval)
  have m3: "list_ex (\<lambda>pattern. re_match pattern False [12358, 12435, 12290]) DEFAULT_PATTERNS"
    by (simp add: DEFAULT_PATTERNS_def MARKS_def rx_eval)
  have l: "length (ustr ''wwwwwwwwwwwwwwww'') = 16" "length (ustr ''www'') = 3"
    by (simp_all add: ustr_def)
  have d: "\<not> af_enabled (AizuchiFilter_init None 15 False)" by (simp add: af_default)
  have n: "ustr ''www'' \<noteq> []" "ustr ''wwwwwwwwwwwwwwww'' \<noteq> []" by (simp_all add: ustr_def)
  show ?thesis
    using is_aizuchi_guards [of AizuchiFilter_default "ustr ''wwwwwwwwwwwwwwww''"]
      is_aizuchi_guards [of AizuchiFilter_default "ustr ''  www ''"]
      is_aizuchi_guards [of AizuchiFilter_default "[12358, 12435, 12290]"]
      is_aizuchi_guards [of AizuchiFilter_default "ustr ''   ''"]
      is_aizuchi_guards [of "AizuchiFilter_init None 15 False" "ustr ''www''"]
    unfolding s c by (simp add: m1 m2 m3 l d n)
qed

section \<open>Properties of the hotwords registry\<close>

lemma merge_loop_spec:
  "merge_loop combined ws = combined @ drop_repeats (filter (\<lambda>w. w \<notin> set combined) ws)"
proof (induction ws arbitrary: combined)
  case Nil
  then show ?case by simp
next
  case (Cons w ws)
  show ?case
  proof (cases "w \<in> set combined")
    case True
    then show ?thesis by (simp add: Cons.IH)
  next
    case False
    have "filter (\<lambda>x. x \<notin> set (combined @ [w])) ws =
          removeAll w (filter (\<lambda>x. x \<notin> set combined) ws)"
      by (induction ws) auto
    with False show ?thesis by (simp add: Cons.IH)
  qed
qed

lemma py_slice_to_nonneg: "0 \<le> n \<Longrightarrow> py_slice_to xs n = take (nat n) xs"
  by (simp add: py_slice_to_def)

text \<open>
  C5.  For a count \<open>max_total \<ge> 0\<close>, \<open>merge_with_request_hotwords\<close> is the registry followed
  by the request terms that the registry does not hold (each once, in the order of their
  first occurrence), cut to its first \<open>max_total\<close> entries and joined with a comma and a
  space.  On the registry \<open>A, B\<close> the request \<open>X, Y\<close> with \<open>max_total = 3\<close> gives \<open>A, B, X\<close>.
\<close>

theorem merge_with_request_hotwords_spec:
  assumes "0 \<le> max_total"
  shows "merge_with_request_hotwords registry (Some request_terms) max_total =
           spec_merge registry request_terms (nat max_total) \<and>
         merge_with_request_hotwords registry None max_total =
           py_join (ustr '', '') (take (nat max_total) registry) \<and>
         merge_with_request_hotwords [ustr ''A'', ustr ''B''] (Some [ustr ''X'', ustr ''Y'']) 3 =
           ustr ''A, B, X''"
proof -
  have j: "(if xs \<noteq> [] then py_join sep xs else []) = py_join sep xs" for sep and xs :: "pystr list"
    by (cases xs) simp_all
  have a: "merge_with_request_hotwords registry (Some request_terms) max_total =
           spec_merge registry request_terms (nat max_total)"
    unfolding merge_with_request_hotwords_def Let_def j spec_merge_def
    by (cases request_terms) (simp_all add: merge_loop_spec py_slice_to_nonneg [OF assms] del: merge_loop.simps)
  have b: "merge_with_request_hotwords registry None max_total =
           py_join (ustr '', '') (take (nat max_total) registry)"
    unfolding merge_with_request_hotwords_def Let_def j
    by (simp add: py_slice_to_nonneg [OF assms])
  have c: "merge_with_request_hotwords [ustr ''A'', ustr ''B''] (Some [ustr ''X'', ustr ''Y'']) 3 =
           ustr ''A, B, X''"
    by (simp add: merge_with_request_hotwords_def py_slice_to_def ustr_def Let_def)
  show ?thesis using a b c by simp
qed

theorem merge_with_request_hotwords_spec_witness:
  "(0::int) \<le> 3 \<and>
   merge_with_request_hotwords [ustr ''A'', ustr ''B'']
     (Some [ustr ''B'', ustr ''X'', ustr ''X'', ustr ''Y'']) 3 = ustr ''A, B, X'' \<and>
   spec_merge [ustr ''A'', ustr ''B''] [ustr ''B'', ustr ''X'', ustr ''X'', ustr ''Y''] 3 =
     ustr ''A, B, X''"
proof -
  have "spec_merge [ustr ''A'', ustr ''B''] [ustr ''B'', ustr ''X'', ustr ''X'', ustr ''Y''] 3 =
     ustr ''A, B, X''"
    by (simp add: spec_merge_def ustr_def)
  then show ?thesis
    using merge_with_request_hotwords_spec [of 3 "[ustr ''A'', ustr ''B'']"
        "[ustr ''B'', ustr ''X'', ustr ''X'', ustr ''Y'']"]
    by simp
qed

section \<open>Properties of the service\<close>

lemma collect_segments_kept:
  "collect_segments af fa segs (parts, lp, n, k) =
     (parts @ map (\<lambda>s. py_strip (seg_text s)) (kept_segments af fa segs),
      lp + sum_list (map avg_logprob (kept_segments af fa segs)),
      n + length (kept_segments af fa segs),
      k + length (filter (\<lambda>s. fa \<and> is_aizuchi af (py_strip (seg_text s))) segs))"
proof (induction segs arbitrary: parts lp n k)
  case Nil
  then show ?case by (simp add: kept_segments_def)
next
  case (Cons s segs)
  have step: "collect_segments af fa (s # segs) (parts, lp, n, k) =
      (if fa \<and> is_aizuchi af (py_strip (seg_text s))
       then collect_segments af fa segs (parts, lp, n, k + 1)
       else collect_segments af fa segs
              (parts @ [py_strip (seg_text s)], lp + avg_logprob s, n + 1, k))"
    by (simp add: Let_def)
  show ?case
    unfolding step Cons.IH
    by (cases "fa \<and> is_aizuchi af (py_strip (seg_text s))") (simp_all add: kept_segments_def)
qed

lemma confidence_of_spec:
  "confidence_of (sum_list (map avg_logprob kept)) (length kept) = spec_confidence kept"
  by (simp add: confidence_of_def spec_confidence_def average_logprob_def clamp_def Let_def
      min_def max_def)

lemma transcribe_local_success:
  assumes "model svc = Some m"
    and "run m \<lparr>req_audio_path = path, req_language = lang,
                req_initial_prompt =
                  build_prompt lang (merge_with_request_hotwords (hotwords svc) extra 50)\<rparr> =
         (Inr (segments, duration), m')"
  shows "\<exists>svc' text. transcribe_local run svc path lang fa extra t0 t1 =
           (svc', Inr (text, spec_confidence (kept_segments (aizuchi_filter svc) fa segments),
                       t1 - t0))"
proof -
  obtain hf tx w r where f: "filter_text (hallucination_filter svc)
      (py_strip (py_join (ustr '' '')
         (map (\<lambda>s. py_strip (seg_text s)) (kept_segments (aizuchi_filter svc) fa segments)))) =
      (hf, (tx, w, r))"
    by (metis prod_cases3 surj_pair)
  show ?thesis
    unfolding transcribe_local_def assms(1) Let_def
    by (simp add: assms(2) collect_segments_kept f confidence_of_spec)
qed

text \<open>
  C4.  When the local model returns its segments, the confidence of the result is 0 if no
  segment is kept and else \<open>1 + a / 3\<close> limited to the interval from 0 to 1, where \<open>a\<close> is the
  mean of \<open>avg_logprob\<close> over the kept segments (those that the filler filter did not drop).
  A mean of \<open>-3\<close> gives 0, a mean of 0 gives 1 and a mean of \<open>-1.5\<close> gives 0.5.  The source
  computes in floating point, the model in the reals.
\<close>

theorem local_confidence_from_mean:
  assumes "model svc = Some m"
    and "run m \<lparr>req_audio_path = path, req_language = lang,
                req_initial_prompt =
                  build_prompt lang (merge_with_request_hotwords (hotwords svc) extra 50)\<rparr> =
         (Inr (segments, duration), m')"
    and "kept = kept_segments (aizuchi_filter svc) fa segments"
  shows "\<exists>svc' text confidence.
           transcribe_local run svc path lang fa extra t0 t1 =
             (svc', Inr (text, confidence, t1 - t0)) \<and>
           confidence = (if kept = [] then 0 else clamp 0 1 (1 + average_logprob kept / 3)) \<and>
           (kept \<noteq> [] \<and> average_logprob kept = - 3 \<longrightarrow> confidence = 0) \<and>
           (kept \<noteq> [] \<and> average_logprob kept = 0 \<longrightarrow> confidence = 1) \<and>
           (kept \<noteq> [] \<and> average_logprob kept = - (3 / 2) \<longrightarrow> confidence = 1 / 2)"
proof -
  obtain svc' tx where t: "transcribe_local run svc path lang fa extra t0 t1 =
      (svc', Inr (tx, spec_confidence kept, t1 - t0))"
    using transcribe_local_success [where run = run and svc = svc and m = m and fa = fa, OF assms(1,2)]
      assms(3) by blast
  have "spec_confidence kept = (if kept = [] then 0 else clamp 0 1 (1 + average_logprob kept / 3))"
    by (simp add: spec_confidence_def)
  moreover have "kept \<noteq> [] \<and> average_logprob kept = - 3 \<longrightarrow> spec_confidence kept = 0"
    by (simp add: spec_confidence_def clamp_def)
  moreover have "kept \<noteq> [] \<and> average_logprob kept = 0 \<longrightarrow> spec_confidence kept = 1"
    by (simp add: spec_confidence_def clamp_def)
  moreover have "kept \<noteq> [] \<and> average_logprob kept = - (3 / 2) \<longrightarrow> spec_confidence kept = 1 / 2"
    by (simp add: spec_confidence_def clamp_def)
  ultimately show ?thesis using t by blast
qed


theorem local_confidence_from_mean_witness:
  "model ((WhisperService_init ''local'' 15 [] :: (unit, unit) WhisperService)
            \<lparr>model := Some (), aizuchi_filter := AizuchiFilter_default\<rparr>) = Some () \<and>
   kept_segments AizuchiFilter_default True
     [\<lparr>seg_text = [12358, 12435], avg_logprob = - (1 / 10)\<rparr>,
      \<lparr>seg_text = ustr '' test'', avg_logprob = - (3 / 2)\<rparr>] =
     [\<lparr>seg_text = ustr '' test'', avg_logprob = - (3 / 2)\<rparr>] \<and>
   (\<exists>svc' tx.
      transcribe_local
        (\<lambda>m req. (Inr ([\<lparr>seg_text = [12358, 12435], avg_logprob = - (1 / 10)\<rparr>,
                          \<lparr>seg_text = ustr '' test'', avg_logprob = - (3 / 2)\<rparr>], Some 2), m))
        ((WhisperService_init ''local'' 15 [] :: (unit, unit) WhisperService)
            \<lparr>model := Some (), aizuchi_filter := AizuchiFilter_default\<rparr>)
        (ustr ''a.wav'') (ustr ''ja'') True None 0 1 =
      (svc', Inr (tx, 1 / 2, 1)))"
proof -
  let ?svc = "(WhisperService_init ''local'' 15 [] :: (unit, unit) WhisperService)
            \<lparr>model := Some (), aizuchi_filter := AizuchiFilter_default\<rparr>"
  let ?s1 = "\<lparr>seg_text = [12358, 12435], avg_logprob = - (1 / 10)\<rparr>"
  let ?s2 = "\<lparr>seg_text = ustr '' test'', avg_logprob = - (3 / 2)\<rparr>"
  let ?run = "\<lambda>(m :: unit) (req :: local_request).
      (Inr ([?s1, ?s2], Some (2 :: real)) :: py_exception + Segment list \<times> real option, m)"
  have m: "model ?svc = Some ()" by simp
  have r: "?run () \<lparr>req_audio_path = ustr ''a.wav'', req_language = ustr ''ja'',
                req_initial_prompt =
                  build_prompt (ustr ''ja'') (merge_with_request_hotwords (hotwords ?svc) None 50)\<rparr> =
         (Inr ([?s1, ?s2], Some 2), ())"
    by simp
  have s: "py_strip [12358, 12435] = [12358, 12435]" "py_strip (ustr '' test'') = ustr ''test''"
    by (simp_all add: py_strip_def ustr_def py_isspace_def)
  have c: "compiled AizuchiFilter_default = DEFAULT_PATTERNS"
    "af_enabled AizuchiFilter_default" "max_length AizuchiFilter_default = 15"
    by (simp_all add: af_default)
  have s': "py_strip (ustr ''test'') = ustr ''test''"
    by (simp add: py_strip_def ustr_def py_isspace_def)
  have l: "length (ustr ''test'') = 4" by (simp add: ustr_def)
  have p1: "list_ex (\<lambda>pattern. re_match pattern False [12358, 12435]) DEFAULT_PATTERNS"
    by (simp add: DEFAULT_PATTERNS_def MARKS_def rx_eval)
  have p2: "\<not> list_ex (\<lambda>pattern. re_match pattern False (ustr ''test'')) DEFAULT_PATTERNS"
    by (simp add: DEFAULT_PATTERNS_def MARKS_def rx_eval)
  have i1: "is_aizuchi AizuchiFilter_default [12358, 12435]"
    unfolding is_aizuchi_def Let_def s by (simp add: c p1)
  have i2: "\<not> is_aizuchi AizuchiFilter_default (ustr ''test'')"
    unfolding is_aizuchi_def Let_def s' by (simp add: c p2 l)
  have k: "[?s2] = kept_segments (aizuchi_filter ?svc) True [?s1, ?s2]"
    by (simp add: kept_segments_def s i1 i2)
  have a: "average_logprob [?s2] = - (3 / 2)" by (simp add: average_logprob_def)
  from local_confidence_from_mean [where run = ?run and ?t0.0 = 0 and ?t1.0 = 1, OF m r k]
  obtain svc' tx c where
    "transcribe_local ?run ?svc (ustr ''a.wav'') (ustr ''ja'') True None 0 1 =
       (svc', Inr (tx, c, 1 - 0))"
    and "[?s2] \<noteq> [] \<and> average_logprob [?s2] = - (3 / 2) \<longrightarrow> c = 1 / 2"
    by blast
  with a have "transcribe_local ?run ?svc (ustr ''a.wav'') (ustr ''ja'') True None 0 1 =
       (svc', Inr (tx, 1 / 2, 1))" by simp
  then have "\<exists>svc' tx. transcribe_local ?run ?svc (ustr ''a.wav'') (ustr ''ja'') True None 0 1 =
       (svc', Inr (tx, 1 / 2, 1))" by blast
  with m k show ?thesis by simp
qed

lemma record_stats_failure:
  "total_requests (record_stats s t False d) = total_requests s + 1 \<and>
   failed_requests (record_stats s t False d) = failed_requests s + 1 \<and>
   successful_requests (record_stats s t False d) = successful_requests s \<and>
   total_processing_time (record_stats s t False d) = total_processing_time s + t \<and>
   total_audio_seconds (record_stats s t False d) = total_audio_seconds s + d"
  by (simp add: record_stats_def Let_def)

text \<open>
  C8.  When the provider raises during a transcription, on the local path and on the cloud
  path alike, the service returns that same exception to the caller; its statistics are those
  of one more \<open>record\<close> call with \<open>success = False\<close>, the elapsed time and no audio duration
  (one more request, one more failure, no more successes); and the provider is left in the
  state after that one call: there is no second call.
\<close>

theorem provider_failure_recorded_and_reraised:
  "(\<not> is_cloud (provider_type svc) \<and> model svc = Some m \<and>
    lrun m \<lparr>req_audio_path = path, req_language = lang,
             req_initial_prompt =
               build_prompt lang (merge_with_request_hotwords (hotwords svc) extra 50)\<rparr> =
      (Inl e, m') \<longrightarrow>
    transcribe lrun crun svc path lang fa extra t0 t1 =
      (svc\<lparr>model := Some m', stats := record_stats (stats svc) (t1 - t0) False 0\<rparr>, Inl e)) \<and>
   (is_cloud (provider_type svc) \<and> cloud_provider svc = Some c \<and>
    crun c path lang = (Inl e, c') \<longrightarrow>
    transcribe lrun crun svc path lang fa extra t0 t1 =
      (svc\<lparr>cloud_provider := Some c', stats := record_stats (stats svc) (t1 - t0) False 0\<rparr>,
       Inl e)) \<and>
   total_requests (record_stats (stats svc) (t1 - t0) False 0) = total_requests (stats svc) + 1 \<and>
   failed_requests (record_stats (stats svc) (t1 - t0) False 0) = failed_requests (stats svc) + 1 \<and>
   successful_requests (record_stats (stats svc) (t1 - t0) False 0) =
     successful_requests (stats svc) \<and>
   total_processing_time (record_stats (stats svc) (t1 - t0) False 0) =
     total_processing_time (stats svc) + (t1 - t0)"
  by (simp add: transcribe_def transcribe_local_def transcribe_cloud_def Let_def
      record_stats_failure)

theorem provider_failure_recorded_and_reraised_witness:
  "transcribe (\<lambda>m req. (Inl (Raised ''OSError'' ''decoder failed''), Suc m))
     (\<lambda>c p l. (Inr ([], 0, 0), c))
     ((WhisperService_init ''local'' 15 [] :: (nat, unit) WhisperService)\<lparr>model := Some 0\<rparr>)
     (ustr ''a.wav'') (ustr ''ja'') True None 10 12 =
   (((WhisperService_init ''local'' 15 [] :: (nat, unit) WhisperService)\<lparr>model := Some 0\<rparr>)
      \<lparr>model := Some (Suc 0),
       stats := \<lparr>total_requests = 1, successful_requests = 0, failed_requests = 1,
                 total_processing_time = 2, total_audio_seconds = 0\<rparr>\<rparr>,
    Inl (Raised ''OSError'' ''decoder failed'')) \<and>
   transcribe (\<lambda>m req. (Inr ([], None), m))
     (\<lambda>c p l. (Inl (Raised ''APIError'' ''503''), Suc c))
     ((WhisperService_init ''groq'' 15 [] :: (unit, nat) WhisperService)\<lparr>cloud_provider := Some 0\<rparr>)
     (ustr ''a.wav'') (ustr ''ja'') True None 10 12 =
   (((WhisperService_init ''groq'' 15 [] :: (unit, nat) WhisperService)\<lparr>cloud_provider := Some 0\<rparr>)
      \<lparr>cloud_provider := Some (Suc 0),
       stats := \<lparr>total_requests = 1, successful_requests = 0, failed_requests = 1,
                 total_processing_time = 2, total_audio_seconds = 0\<rparr>\<rparr>,
    Inl (Raised ''APIError'' ''503''))"
proof -
  have s: "record_stats TranscriptionStats_init 2 False 0 =
      \<lparr>total_requests = 1, successful_requests = 0, failed_requests = 1,
       total_processing_time = 2, total_audio_seconds = 0\<rparr>"
    by (simp add: record_stats_def TranscriptionStats_init_def Let_def)
  show ?thesis
    using provider_failure_recorded_and_reraised
      [where svc = "(WhisperService_init ''local'' 15 [] :: (nat, unit) WhisperService)\<lparr>model := Some 0\<rparr>"
         and lrun = "\<lambda>m req. (Inl (Raised ''OSError'' ''decoder failed''), Suc m)"
         and crun = "\<lambda>c p l. (Inr ([], 0, 0), c)"
         and m = 0 and m' = "Suc 0" and e = "Raised ''OSError'' ''decoder failed''"
         and path = "ustr ''a.wav''" and lang = "ustr ''ja''" and fa = True and extra = None
         and ?t0.0 = 10 and ?t1.0 = 12]
      provider_failure_recorded_and_reraised
      [where svc = "(WhisperService_init ''groq'' 15 [] :: (unit, nat) WhisperService)\<lparr>cloud_provider := Some 0\<rparr>"
         and lrun = "\<lambda>m req. (Inr ([], None), m)"
         and crun = "\<lambda>c p l. (Inl (Raised ''APIError'' ''503''), Suc c)"
         and c = 0 and c' = "Suc 0" and e = "Raised ''APIError'' ''503''"
         and path = "ustr ''a.wav''" and lang = "ustr ''ja''" and fa = True and extra = None
         and ?t0.0 = 10 and ?t1.0 = 12]
    by (simp add: WhisperService_init_def is_cloud_def s)
qed

text \<open>
  C9.  When the provider of the configured kind was never initialised, \<open>transcribe\<close> raises
  the not-ready \<open>RuntimeError\<close> of that kind and leaves the service as it was: no provider
  is called, whatever the providers would do, and the provider of the other kind is not
  used even when it is there.  A new service has neither provider.
\<close>

theorem transcribe_not_ready:
  "(is_cloud (provider_type svc) \<and> cloud_provider svc = None \<longrightarrow>
      transcribe lrun crun svc path lang fa extra t0 t1 =
        (svc, Inl (RuntimeError ''Cloud provider not initialized. Call load_model() first.''))) \<and>
   (\<not> is_cloud (provider_type svc) \<and> model svc = None \<longrightarrow>
      transcribe lrun crun svc path lang fa extra t0 t1 =
        (svc, Inl (RuntimeError ''Local model not loaded. Call load_model() first.''))) \<and>
   model (WhisperService_init provider maxlen initial :: ('m, 'c) WhisperService) = None \<and>
   cloud_provider (WhisperService_init provider maxlen initial :: ('m, 'c) WhisperService) = None"
  by (simp add: transcribe_def transcribe_local_def transcribe_cloud_def WhisperService_init_def)

theorem transcribe_not_ready_witness:
  "is_cloud (provider_type
     ((WhisperService_init ''groq'' 15 [] :: (nat, nat) WhisperService)\<lparr>model := Some 0\<rparr>)) \<and>
   cloud_provider
     ((WhisperService_init ''groq'' 15 [] :: (nat, nat) WhisperService)\<lparr>model := Some 0\<rparr>) = None \<and>
   transcribe (\<lambda>m req. (Inr ([], None), Suc m)) (\<lambda>c p l. (Inr ([], 0, 0), Suc c))
     ((WhisperService_init ''groq'' 15 [] :: (nat, nat) WhisperService)\<lparr>model := Some 0\<rparr>)
     (ustr ''a.wav'') (ustr ''ja'') True None 10 12 =
   ((WhisperService_init ''groq'' 15 [] :: (nat, nat) WhisperService)\<lparr>model := Some 0\<rparr>,
    Inl (RuntimeError ''Cloud provider not initialized. Call load_model() first.'')) \<and>
   transcribe (\<lambda>m req. (Inr ([], None), Suc m)) (\<lambda>c p l. (Inr ([], 0, 0), Suc c))
     (WhisperService_init ''local'' 15 [] :: (nat, nat) WhisperService)
     (ustr ''a.wav'') (ustr ''ja'') True None 10 12 =
   (WhisperService_init ''local'' 15 [] :: (nat, nat) WhisperService,
    Inl (RuntimeError ''Local model not loaded. Call load_model() first.''))"
  using transcribe_not_ready
      [where svc = "(WhisperService_init ''groq'' 15 [] :: (nat, nat) WhisperService)\<lparr>model := Some 0\<rparr>"
         and lrun = "\<lambda>m req. (Inr ([], None), Suc m)" and crun = "\<lambda>c p l. (Inr ([], 0, 0), Suc c)"
         and path = "ustr ''a.wav''" and lang = "ustr ''ja''" and fa = True and extra = None
         and ?t0.0 = 10 and ?t1.0 = 12]
    transcribe_not_ready
      [where svc = "WhisperService_init ''local'' 15 [] :: (nat, nat) WhisperService"
         and lrun = "\<lambda>m req. (Inr ([], None), Suc m)" and crun = "\<lambda>c p l. (Inr ([], 0, 0), Suc c)"
         and path = "ustr ''a.wav''" and lang = "ustr ''ja''" and fa = True and extra = None
         and ?t0.0 = 10 and ?t1.0 = 12]
  by (simp add: WhisperService_init_def is_cloud_def)

lemma filter_text_disabled: "\<not> hf_enabled f \<Longrightarrow> filter_text f t = (f, (t, False, None))"
  by (simp add: filter_text_def)

lemma is_aizuchi_disabled: "\<not> af_enabled f \<Longrightarrow> \<not> is_aizuchi f t"
  by (simp add: is_aizuchi_def)

lemma load_model_filters:
  "aizuchi_filter (fst (load_model svc nm np ready)) = aizuchi_filter svc \<and>
   hallucination_filter (fst (load_model svc nm np ready)) = hallucination_filter svc"
  by (simp add: load_model_def split: sum.splits option.splits)

lemma transcribe_cloud_filters:
  "\<not> hf_enabled (hallucination_filter svc) \<Longrightarrow>
   aizuchi_filter (fst (transcribe_cloud crun svc path lang t0 t1)) = aizuchi_filter svc \<and>
   hallucination_filter (fst (transcribe_cloud crun svc path lang t0 t1)) =
     hallucination_filter svc"
  by (simp add: transcribe_cloud_def filter_text_disabled split: option.splits sum.splits prod.splits)

lemma transcribe_local_filters:
  "\<not> hf_enabled (hallucination_filter svc) \<Longrightarrow>
   aizuchi_filter (fst (transcribe_local lrun svc path lang fa extra t0 t1)) = aizuchi_filter svc \<and>
   hallucination_filter (fst (transcribe_local lrun svc path lang fa extra t0 t1)) =
     hallucination_filter svc"
  by (simp add: transcribe_local_def filter_text_disabled Let_def
      split: option.splits sum.splits prod.splits)

lemma apply_op_disabled:
  assumes "\<not> af_enabled (aizuchi_filter svc)" and "\<not> hf_enabled (hallucination_filter svc)"
  shows "\<not> af_enabled (aizuchi_filter (apply_op lrun crun svc x)) \<and>
         \<not> hf_enabled (hallucination_filter (apply_op lrun crun svc x))"
proof (cases x)
  case (LoadModel nm np ready)
  with assms show ?thesis by (simp add: load_model_filters)
next
  case (Transcribe path lang fa extra t0 t1)
  with assms show ?thesis
    by (simp add: transcribe_def transcribe_cloud_filters transcribe_local_filters)
next
  case (FilterText t)
  with assms show ?thesis by (simp add: filter_text_disabled)
next
  case (AddPattern p)
  with assms show ?thesis by (simp add: add_pattern_def)
next
  case (RemovePattern p)
  with assms show ?thesis by (simp add: remove_pattern_def)
next
  case (AddHotword w)
  with assms show ?thesis by simp
qed

lemma run_ops_disabled:
  "\<not> af_enabled (aizuchi_filter svc) \<Longrightarrow> \<not> hf_enabled (hallucination_filter svc) \<Longrightarrow>
   \<not> af_enabled (aizuchi_filter (run_ops lrun crun svc ops)) \<and>
   \<not> hf_enabled (hallucination_filter (run_ops lrun crun svc ops))"
proof (induction ops arbitrary: svc)
  case Nil
  then show ?case by simp
next
  case (Cons x ops)
  from apply_op_disabled [OF Cons.prems]
  have "\<not> af_enabled (aizuchi_filter (apply_op lrun crun svc x))"
    and "\<not> hf_enabled (hallucination_filter (apply_op lrun crun svc x))"
    by simp_all
  then show ?case by (simp add: Cons.IH)
qed

text \<open>
  C3.  The constructor builds both filters with \<open>enabled=False\<close>, and no operation on the
  service (loading, transcribing, the methods of the filters and of the registry) changes
  either flag.  So in every state that a service reaches, \<open>is_aizuchi\<close> is false for every
  fragment, every segment is kept even when \<open>filter_aizuchi\<close> is true, and the hallucination
  filter returns every text unchanged with \<open>was_filtered\<close> false and its counters as they were.
\<close>

theorem service_filters_stay_disabled:
  assumes "svc = run_ops lrun crun (WhisperService_init provider maxlen initial) ops"
  shows "\<not> af_enabled (aizuchi_filter svc) \<and> \<not> hf_enabled (hallucination_filter svc) \<and>
         (\<forall>fragment. \<not> is_aizuchi (aizuchi_filter svc) fragment) \<and>
         (\<forall>segments. kept_segments (aizuchi_filter svc) True segments = segments) \<and>
         (\<forall>t. filter_text (hallucination_filter svc) t =
                (hallucination_filter svc, (t, False, None)))"
proof -
  have "\<not> af_enabled (aizuchi_filter (WhisperService_init provider maxlen initial))"
    and "\<not> hf_enabled (hallucination_filter (WhisperService_init provider maxlen initial))"
    by (simp_all add: WhisperService_init_def AizuchiFilter_init_def HallucinationFilter_init_def)
  then have d: "\<not> af_enabled (aizuchi_filter svc) \<and> \<not> hf_enabled (hallucination_filter svc)"
    unfolding assms by (rule run_ops_disabled)
  then show ?thesis
    by (simp add: is_aizuchi_disabled filter_text_disabled kept_segments_def)
qed

theorem service_filters_stay_disabled_witness:
  "is_aizuchi AizuchiFilter_default [12358, 12435] \<and>
   \<not> is_aizuchi (aizuchi_filter (run_ops (\<lambda>m req. (Inr ([], None), m)) (\<lambda>c p l. (Inr ([], 0, 0), c))
        (WhisperService_init ''local'' 15 [] :: (unit, unit) WhisperService)
        [LoadModel (Inr ()) (Inr None) (\<lambda>c. True),
         Transcribe (ustr ''a.wav'') (ustr ''ja'') True None 0 1,
         AddPattern (Lit 119)])) [12358, 12435] \<and>
   snd (transcribe
     (\<lambda>m req. (Inr ([\<lparr>seg_text = [12358, 12435], avg_logprob = 0\<rparr>], None), m))
     (\<lambda>c p l. (Inr ([], 0, 0), c))
     (run_ops (\<lambda>m req. (Inr ([], None), m)) (\<lambda>c p l. (Inr ([], 0, 0), c))
        (WhisperService_init ''local'' 15 [] :: (unit, unit) WhisperService)
        [LoadModel (Inr ()) (Inr None) (\<lambda>c. True)])
     (ustr ''a.wav'') (ustr ''ja'') True None 0 1) = Inr ([12358, 12435], 1, 1)"
proof -
  have s: "py_strip [12358, 12435] = [12358, 12435]"
    by (simp add: py_strip_def py_isspace_def)
  have c: "compiled AizuchiFilter_default = DEFAULT_PATTERNS"
    "af_enabled AizuchiFilter_default" "max_length AizuchiFilter_default = 15"
    by (simp_all add: af_default)
  have p1: "list_ex (\<lambda>pattern. re_match pattern False [12358, 12435]) DEFAULT_PATTERNS"
    by (simp add: DEFAULT_PATTERNS_def MARKS_def rx_eval)
  have i1: "is_aizuchi AizuchiFilter_default [12358, 12435]"
    unfolding is_aizuchi_def Let_def s by (simp add: c p1)
  let ?ops = "[LoadModel (Inr ()) (Inr None) (\<lambda>c. True)] :: (unit, unit) operation list"
  let ?svc = "fst (load_model (WhisperService_init ''local'' 15 [] :: (unit, unit) WhisperService)
                (Inr ()) (Inr None) (\<lambda>c. True))"
  have e: "run_ops (\<lambda>m req. (Inr ([], None), m)) (\<lambda>c p l. (Inr ([], 0, 0), c))
        (WhisperService_init ''local'' 15 []) ?ops = ?svc"
    by simp
  have m: "model ?svc = Some ()" "is_cloud (provider_type ?svc) = False" "hotwords ?svc = []"
    by (simp_all add: load_model_def WhisperService_init_def is_cloud_def)
  have d: "\<not> af_enabled (aizuchi_filter ?svc)"
    "\<And>t. filter_text (hallucination_filter ?svc) t = (hallucination_filter ?svc, (t, False, None))"
    using service_filters_stay_disabled [OF refl, of "\<lambda>(m :: unit) req. (Inr ([], None), m)"
        "\<lambda>(c :: unit) p l. (Inr ([], 0, 0), c)" "''local''" 15 "[]" ?ops]
    unfolding e by simp_all
  have i: "\<not> is_aizuchi (aizuchi_filter ?svc) [12358, 12435]"
    using d(1) by (rule is_aizuchi_disabled)
  have j: "py_strip (py_join (ustr '' '') [[12358, 12435]]) = [12358, 12435]"
    by (simp add: s)
  have t: "snd (transcribe
     (\<lambda>m req. (Inr ([\<lparr>seg_text = [12358, 12435], avg_logprob = 0\<rparr>], None), m))
     (\<lambda>c p l. (Inr ([], 0, 0), c)) ?svc
     (ustr ''a.wav'') (ustr ''ja'') True None 0 1) = Inr ([12358, 12435], 1, 1)"
    unfolding transcribe_def transcribe_local_def m Let_def
    by (simp add: s i j d(2) confidence_of_def Let_def)
  show ?thesis
    using service_filters_stay_disabled [OF refl, of "\<lambda>(m :: unit) req. (Inr ([], None), m)"
        "\<lambda>(c :: unit) p l. (Inr ([], 0, 0), c)" "''local''" 15 "[]"
        "[LoadModel (Inr ()) (Inr None) (\<lambda>c. True),
          Transcribe (ustr ''a.wav'') (ustr ''ja'') True None 0 1, AddPattern (Lit 119)]"]
      i1 t
    unfolding e by simp
qed

section \<open>Properties of the statistics\<close>

lemma total_requests_record_stats:
  "total_requests (record_stats s t ok d) = total_requests s + 1"
  by (simp add: record_stats_def Let_def)

lemma total_requests_record_all:
  "total_requests (record_all s rs) = total_requests s + int (length rs)"
  by (induction s rs rule: record_all.induct) (simp_all add: total_requests_record_stats)

text \<open>
  C10.  With no request recorded (\<open>total_requests = 0\<close>) the success rate is 1.0, not 0.0.
  After one or more \<open>record\<close> calls on the statistics of a new service, \<open>total_requests\<close> is
  the number of calls, so it is not 0, and the success rate is
  \<open>successful_requests / total_requests\<close>.
\<close>

theorem success_rate_empty_and_recorded:
  "(total_requests s = 0 \<longrightarrow> success_rate s = 1 \<and> success_rate s \<noteq> 0) \<and>
   success_rate TranscriptionStats_init = 1 \<and>
   (rs \<noteq> [] \<longrightarrow>
      total_requests (record_all TranscriptionStats_init rs) = int (length rs) \<and>
      total_requests (record_all TranscriptionStats_init rs) \<noteq> 0 \<and>
      success_rate (record_all TranscriptionStats_init rs) =
        real_of_int (successful_requests (record_all TranscriptionStats_init rs)) /
        real_of_int (total_requests (record_all TranscriptionStats_init rs)))"
proof -
  have n: "total_requests (record_all TranscriptionStats_init rs) = int (length rs)"
    by (simp add: total_requests_record_all TranscriptionStats_init_def)
  have i: "success_rate TranscriptionStats_init = 1"
    by (simp add: success_rate_def TranscriptionStats_init_def)
  show ?thesis
    unfolding i by (simp add: success_rate_def n)
qed

theorem success_rate_empty_and_recorded_witness:
  "total_requests TranscriptionStats_init = 0 \<and>
   success_rate TranscriptionStats_init = 1 \<and>
   [(1, True, 0), (2, False, 0)] \<noteq> ([] :: (real \<times> bool \<times> real) list) \<and>
   total_requests (record_all TranscriptionStats_init [(1, True, 0), (2, False, 0)]) = 2 \<and>
   success_rate (record_all TranscriptionStats_init [(1, True, 0), (2, False, 0)]) = 1 / 2"
  using success_rate_empty_and_recorded
    [of TranscriptionStats_init "[(1, True, 0), (2, False, 0)]"]
  by (simp add: TranscriptionStats_init_def record_stats_def Let_def)

end
